theory Spec2Isabelle
  imports Complex_Main "HOL-Library.Word"
begin

section \<open>JavaScript strings and numbers\<close>

text \<open>
  A JavaScript string is a sequence of UTF-16 code units; \<open>length\<close>, \<open>split('')\<close>,
  \<open>substr\<close> and \<open>replace\<close> all count code units. The literals of \<open>script.js\<close> are
  ASCII and are embedded with \<open>lit\<close>.
\<close>

type_synonym jschar = "16 word"
type_synonym jsstring = "jschar list"

definition lit :: "string \<Rightarrow> jsstring" where
  "lit s = map of_char s"

text \<open>
  A Number is NaN, an infinity or a finite value. Finite values are real numbers here;
  the sign of zero is not tracked (both zeros print as \<open>0\<close>).
\<close>

datatype jsnumber = NaN | PosInfinity | NegInfinity | Finite real

datatype jsvalue =
    JSUndefined
  | JSNull
  | JSBoolean bool
  | JSNumber jsnumber
  | JSString jsstring
  | JSObject nat

text \<open>ToBoolean on what \<open>localStorage.getItem\<close> returns: \<open>null\<close> and \<open>''\<close> are falsy.\<close>

fun truthy :: "jsstring option \<Rightarrow> bool" where
  "truthy None = False"
| "truthy (Some s) = (s \<noteq> [])"

text \<open>
  White space and line terminators, as \<open>String.prototype.trim\<close> and \<open>parseInt\<close> strip
  them (all of them lie in the Basic Multilingual Plane).
\<close>

definition isWhiteSpace :: "jschar \<Rightarrow> bool" where
  "isWhiteSpace c =
     (let u = unat c
      in u \<in> {9, 10, 11, 12, 13, 32, 160, 5760, 8232, 8233, 8239, 8287, 12288, 65279}
         \<or> (8192 \<le> u \<and> u \<le> 8202))"

definition trim :: "jsstring \<Rightarrow> jsstring" where
  "trim s = rev (dropWhile isWhiteSpace (rev (dropWhile isWhiteSpace s)))"

definition substr :: "jsstring \<Rightarrow> nat \<Rightarrow> nat \<Rightarrow> jsstring" where
  "substr s start len = take len (drop start s)"

definition isHexDigit :: "jschar \<Rightarrow> bool" where
  "isHexDigit c =
     (let u = unat c
      in (48 \<le> u \<and> u \<le> 57) \<or> (65 \<le> u \<and> u \<le> 70) \<or> (97 \<le> u \<and> u \<le> 102))"

definition digitValue :: "jschar \<Rightarrow> int" where
  "digitValue c =
     (let u = int (unat c)
      in if u \<le> 57 then u - 48 else if u \<le> 70 then u - 55 else u - 87)"

definition hexValue :: "jsstring \<Rightarrow> int" where
  "hexValue z = foldl (\<lambda>acc c. 16 * acc + digitValue c) 0 z"

text \<open>
  \<open>parseInt(string, 16)\<close>: leading white space is skipped, a sign is read, a prefix
  \<open>0x\<close> or \<open>0X\<close> is dropped, and the longest run of hexadecimal digits is converted.
  An empty run gives NaN, which is \<open>None\<close> here. \<open>hexToRgb\<close> passes at most two code
  units, so the value lies between -15 and 255 and no rounding to binary64 occurs.
\<close>

definition parseInt16 :: "jsstring \<Rightarrow> int option" where
  "parseInt16 str =
     (let s1 = dropWhile isWhiteSpace str;
          sign = (if s1 \<noteq> [] \<and> hd s1 = of_char CHR ''-'' then - 1 else 1);
          s2 = (if s1 \<noteq> [] \<and> (hd s1 = of_char CHR ''+'' \<or> hd s1 = of_char CHR ''-'')
                then tl s1 else s1);
          s3 = (if 2 \<le> length s2 \<and> (take 2 s2 = lit ''0x'' \<or> take 2 s2 = lit ''0X'')
                then drop 2 s2 else s2);
          z = takeWhile isHexDigit s3
      in if z = [] then None else Some (sign * hexValue z))"

fun natToString :: "nat \<Rightarrow> jsstring" where
  "natToString n =
     (if n < 10 then [of_nat (48 + n)]
      else natToString (n div 10) @ [of_nat (48 + n mod 10)])"

declare natToString.simps [simp del]

definition intToString :: "int \<Rightarrow> jsstring" where
  "intToString k = (if k < 0 then lit ''-'' @ natToString (nat (- k)) else natToString (nat k))"

text \<open>The substitution \<open>${r}\<close> of a template literal, for a result of \<open>parseInt\<close>.\<close>

fun parsedToString :: "int option \<Rightarrow> jsstring" where
  "parsedToString None = lit ''NaN''"
| "parsedToString (Some k) = intToString k"

section \<open>ThemeManager\<close>

subsection \<open>hexToRgb\<close>

definition hexToRgb :: "jsstring \<Rightarrow> jsstring option" where
  "hexToRgb hex0 =
     (let hex1 = remove1 (of_char CHR ''#'') hex0;
          hex2 = (if length hex1 = 3 then concat (map (\<lambda>char. [char, char]) hex1) else hex1)
      in if length hex2 \<noteq> 6 then None
         else
           let r = parseInt16 (substr hex2 0 2);
               g = parseInt16 (substr hex2 2 2);
               b = parseInt16 (substr hex2 4 2)
           in Some (parsedToString r @ lit '', '' @ parsedToString g @ lit '', ''
                    @ parsedToString b))"

subsection \<open>State\<close>

text \<open>
  The page as the constructor finds it: the class list of the root element, the class
  lists of the two icons (\<open>None\<close> when \<open>getElementById\<close> finds nothing), whether the
  media query \<open>(prefers-color-scheme: dark)\<close> matches, the storage, the inline style
  of the root element, and the cascade, which gives the computed value of a property
  from the root's classes and inline style (\<open>getPropertyValue\<close> returns \<open>''\<close> for an
  unset property). Reads and writes of the storage are taken to succeed.
\<close>

record page =
  htmlClassList :: "jsstring set"
  sunIcon :: "jsstring set option"
  moonIcon :: "jsstring set option"
  mediaQuery :: bool
  localStorage :: "jsstring \<rightharpoonup> jsstring"
  inlineStyle :: "jsstring \<rightharpoonup> jsstring"
  computedStyle :: "jsstring set \<Rightarrow> (jsstring \<rightharpoonup> jsstring) \<Rightarrow> jsstring \<Rightarrow> jsstring"

record theme_manager = page +
  currentTheme :: jsstring
  pendingTimeouts :: nat

definition light :: jsstring where "light = lit ''light''"
definition dark :: jsstring where "dark = lit ''dark''"
definition themeKey :: jsstring where "themeKey = lit ''theme''"

text \<open>\<open>classList.toggle(name, force)\<close>.\<close>

definition toggleClass :: "jsstring \<Rightarrow> bool \<Rightarrow> jsstring set \<Rightarrow> jsstring set" where
  "toggleClass name force cl = (if force then insert name cl else cl - {name})"

subsection \<open>updateRgbVariables\<close>

definition colorNames :: "jsstring list" where
  "colorNames = [lit ''primary'', lit ''secondary'', lit ''accent'', lit ''gaming'',
                 lit ''tech'', lit ''media'']"

text \<open>The property name \<open>--color-${name}-rgb\<close>.\<close>

definition rgbKey :: "jsstring \<Rightarrow> jsstring" where
  "rgbKey name = lit ''--color-'' @ name @ lit ''-rgb''"

definition setRgbVariable :: "jsstring \<times> jsstring \<Rightarrow> 'a theme_manager_scheme \<Rightarrow> 'a theme_manager_scheme" where
  "setRgbVariable entry s =
     (case entry of (name, hex) \<Rightarrow>
        (case hexToRgb hex of
           None \<Rightarrow> s
         | Some rgb \<Rightarrow>
             if rgb \<noteq> []
             then s\<lparr>inlineStyle := (inlineStyle s)(rgbKey name \<mapsto> rgb)\<rparr>
             else s))"

definition updateRgbVariables :: "'a theme_manager_scheme \<Rightarrow> 'a theme_manager_scheme" where
  "updateRgbVariables s =
     (let style = computedStyle s (htmlClassList s) (inlineStyle s);
          colors = map (\<lambda>name. (name, trim (style (lit ''--color-'' @ name)))) colorNames
      in fold setRgbVariable colors s)"

subsection \<open>Operations\<close>

definition getInitialTheme :: "'a page_scheme \<Rightarrow> jsstring" where
  "getInitialTheme p =
     (let savedTheme = localStorage p themeKey
      in if truthy savedTheme \<and> (savedTheme = Some light \<or> savedTheme = Some dark)
         then the savedTheme
         else if mediaQuery p then dark else light)"

definition addTransitionClass :: "'a theme_manager_scheme \<Rightarrow> 'a theme_manager_scheme" where
  "addTransitionClass s =
     s\<lparr>htmlClassList := insert (lit ''theme-transition'') (htmlClassList s),
       pendingTimeouts := Suc (pendingTimeouts s)\<rparr>"

text \<open>The callback of the 300 ms timer, when one is pending.\<close>

definition transitionTimeout :: "'a theme_manager_scheme \<Rightarrow> 'a theme_manager_scheme" where
  "transitionTimeout s =
     s\<lparr>htmlClassList := htmlClassList s - {lit ''theme-transition''},
       pendingTimeouts := pendingTimeouts s - 1\<rparr>"

definition toggleIcons :: "bool \<Rightarrow> 'a theme_manager_scheme \<Rightarrow> 'a theme_manager_scheme" where
  "toggleIcons isDark s =
     (case (sunIcon s, moonIcon s) of
        (Some sun, Some moon) \<Rightarrow>
          s\<lparr>sunIcon := Some (toggleClass (lit ''hidden'') isDark sun),
            moonIcon := Some (toggleClass (lit ''hidden'') (\<not> isDark) moon)\<rparr>
      | _ \<Rightarrow> s)"

definition applyTheme :: "jsstring \<Rightarrow> 'a theme_manager_scheme \<Rightarrow> 'a theme_manager_scheme" where
  "applyTheme theme s =
     (let isDark = (theme = dark);
          s1 = s\<lparr>htmlClassList := toggleClass (lit ''dark-mode'') isDark (htmlClassList s)\<rparr>;
          s2 = toggleIcons isDark s1;
          s3 = s2\<lparr>localStorage := (localStorage s2)(themeKey \<mapsto> theme)\<rparr>;
          s4 = s3\<lparr>currentTheme := theme\<rparr>;
          s5 = updateRgbVariables s4
      in addTransitionClass s5)"

definition toggleTheme :: "'a theme_manager_scheme \<Rightarrow> 'a theme_manager_scheme" where
  "toggleTheme s =
     (let newTheme = (if currentTheme s = light then dark else light)
      in applyTheme newTheme s)"

text \<open>The argument is \<open>e.matches\<close> of the media-query change event.\<close>

definition handleSystemThemeChange :: "bool \<Rightarrow> 'a theme_manager_scheme \<Rightarrow> 'a theme_manager_scheme" where
  "handleSystemThemeChange e_matches s =
     (if \<not> truthy (localStorage s themeKey)
      then applyTheme (if e_matches then dark else light) s
      else s)"

definition setTheme :: "jsvalue \<Rightarrow> 'a theme_manager_scheme \<Rightarrow> 'a theme_manager_scheme" where
  "setTheme theme s =
     (if theme = JSString light \<or> theme = JSString dark
      then (case theme of JSString t \<Rightarrow> applyTheme t s | _ \<Rightarrow> s)
      else s)"

definition getTheme :: "'a theme_manager_scheme \<Rightarrow> jsstring" where
  "getTheme s = currentTheme s"

definition init :: "'a theme_manager_scheme \<Rightarrow> 'a theme_manager_scheme" where
  "init s = updateRgbVariables (applyTheme (currentTheme s) s)"

definition constructor :: "page \<Rightarrow> theme_manager" where
  "constructor p =
     init \<lparr>htmlClassList = htmlClassList p, sunIcon = sunIcon p, moonIcon = moonIcon p,
           mediaQuery = mediaQuery p, localStorage = localStorage p,
           inlineStyle = inlineStyle p, computedStyle = computedStyle p,
           currentTheme = getInitialTheme p, pendingTimeouts = 0\<rparr>"

text \<open>
  The states of a ThemeManager: the one its constructor leaves, and those that follow by
  \<open>toggleTheme\<close> (the click listener of the toggle button, when the page has one, and
  a public method), \<open>setTheme\<close>, the media-query listener \<open>handleSystemThemeChange\<close>
  and the pending timers. No code of the repository writes the storage or the fields of
  the object in any other way.
\<close>

inductive reachable :: "theme_manager \<Rightarrow> bool" where
  constructed: "reachable (constructor p)"
| toggled: "reachable s \<Longrightarrow> reachable (toggleTheme s)"
| themeSet: "reachable s \<Longrightarrow> reachable (setTheme theme s)"
| systemChanged: "reachable s \<Longrightarrow> reachable (handleSystemThemeChange e_matches s)"
| timedOut: "reachable s \<Longrightarrow> 0 < pendingTimeouts s \<Longrightarrow> reachable (transitionTimeout s)"

subsection \<open>The conversion as the specification words it\<close>

text \<open>
  A colour string is an optional leading \<open>#\<close> followed by three or six hexadecimal
  digits; three digits stand for six, each digit doubled; the components are the values
  of the three pairs of digits, printed in decimal and separated by a comma and a space.
\<close>

definition stripHash :: "jsstring \<Rightarrow> jsstring" where
  "stripHash s = (case s of [] \<Rightarrow> [] | c # r \<Rightarrow> if c = of_char CHR ''#'' then r else s)"

definition isHexColor :: "jsstring \<Rightarrow> bool" where
  "isHexColor s =
     (let d = stripHash s in (length d = 3 \<or> length d = 6) \<and> list_all isHexDigit d)"

definition expandShort :: "jsstring \<Rightarrow> jsstring" where
  "expandShort d = (if length d = 3 then concat (map (\<lambda>c. [c, c]) d) else d)"

definition rgbComponents :: "jsstring \<Rightarrow> int \<times> int \<times> int" where
  "rgbComponents d =
     (hexValue (take 2 d), hexValue (take 2 (drop 2 d)), hexValue (take 2 (drop 4 d)))"

definition rgbTriplet :: "int \<times> int \<times> int \<Rightarrow> jsstring" where
  "rgbTriplet c =
     (case c of (r, g, b) \<Rightarrow>
        intToString r @ lit '', '' @ intToString g @ lit '', '' @ intToString b)"

subsection \<open>Sample pages\<close>

text \<open>A page with empty storage, no icons and no colour variables, in a dark system.\<close>

definition blankPage :: page where
  "blankPage =
     \<lparr>htmlClassList = {}, sunIcon = None, moonIcon = None, mediaQuery = True,
      localStorage = Map.empty, inlineStyle = Map.empty,
      computedStyle = (\<lambda>cl st name. [])\<rparr>"

text \<open>The same page with a value stored under the key \<open>theme\<close>.\<close>

definition storedPage :: "jsstring \<Rightarrow> page" where
  "storedPage v = blankPage\<lparr>localStorage := [themeKey \<mapsto> v]\<rparr>"

text \<open>A page whose style sheet gives every colour variable the same value.\<close>

definition colorPage :: "jsstring \<Rightarrow> page" where
  "colorPage v = blankPage\<lparr>computedStyle := (\<lambda>cl st name. v)\<rparr>"

text \<open>A ThemeManager whose fields are given directly.\<close>

definition managerOf :: "page \<Rightarrow> jsstring \<Rightarrow> theme_manager" where
  "managerOf p theme =
     \<lparr>htmlClassList = htmlClassList p, sunIcon = sunIcon p, moonIcon = moonIcon p,
      mediaQuery = mediaQuery p, localStorage = localStorage p,
      inlineStyle = inlineStyle p, computedStyle = computedStyle p,
      currentTheme = theme, pendingTimeouts = 0\<rparr>"

section \<open>Arithmetic on Numbers\<close>

text \<open>
  The operators on Numbers follow IEEE 754: an operation on finite operands computes the
  exact result and rounds it to binary64. The rounding is the parameter \<open>fl\<close>, which
  maps the exact real result to a Number (an infinity on overflow); what the theorems
  need of it is stated where they need it. The formatting of a finite value that is not
  an integer (the shortest decimal that reads back as the same binary64 value) is the
  parameter \<open>fmt\<close>. A zero divisor is taken to be positive zero, as the difference of
  two equal integers is.
\<close>

fun jsDivide :: "(real \<Rightarrow> jsnumber) \<Rightarrow> jsnumber \<Rightarrow> jsnumber \<Rightarrow> jsnumber" where
  "jsDivide fl NaN b = NaN"
| "jsDivide fl a NaN = NaN"
| "jsDivide fl (Finite x) (Finite y) =
     (if y = 0 then (if x = 0 then NaN else if 0 < x then PosInfinity else NegInfinity)
      else fl (x / y))"
| "jsDivide fl (Finite x) b = Finite 0"
| "jsDivide fl PosInfinity (Finite y) = (if y < 0 then NegInfinity else PosInfinity)"
| "jsDivide fl NegInfinity (Finite y) = (if y < 0 then PosInfinity else NegInfinity)"
| "jsDivide fl a b = NaN"

fun jsMultiply :: "(real \<Rightarrow> jsnumber) \<Rightarrow> jsnumber \<Rightarrow> jsnumber \<Rightarrow> jsnumber" where
  "jsMultiply fl NaN b = NaN"
| "jsMultiply fl a NaN = NaN"
| "jsMultiply fl (Finite x) (Finite y) = fl (x * y)"
| "jsMultiply fl (Finite x) PosInfinity =
     (if x = 0 then NaN else if 0 < x then PosInfinity else NegInfinity)"
| "jsMultiply fl (Finite x) NegInfinity =
     (if x = 0 then NaN else if 0 < x then NegInfinity else PosInfinity)"
| "jsMultiply fl PosInfinity (Finite y) =
     (if y = 0 then NaN else if 0 < y then PosInfinity else NegInfinity)"
| "jsMultiply fl NegInfinity (Finite y) =
     (if y = 0 then NaN else if 0 < y then NegInfinity else PosInfinity)"
| "jsMultiply fl PosInfinity PosInfinity = PosInfinity"
| "jsMultiply fl NegInfinity NegInfinity = PosInfinity"
| "jsMultiply fl a b = NegInfinity"

fun jsNegate :: "jsnumber \<Rightarrow> jsnumber" where
  "jsNegate NaN = NaN"
| "jsNegate PosInfinity = NegInfinity"
| "jsNegate NegInfinity = PosInfinity"
| "jsNegate (Finite x) = Finite (- x)"

text \<open>The comparison \<open>a < b\<close>; it is false when an operand is NaN.\<close>

fun jsLess :: "jsnumber \<Rightarrow> jsnumber \<Rightarrow> bool" where
  "jsLess NaN b = False"
| "jsLess a NaN = False"
| "jsLess (Finite x) (Finite y) = (x < y)"
| "jsLess a NegInfinity = False"
| "jsLess PosInfinity b = False"
| "jsLess a b = True"

text \<open>\<open>Math.min\<close> of two arguments: NaN when an argument is NaN.\<close>

fun mathMin :: "jsnumber \<Rightarrow> jsnumber \<Rightarrow> jsnumber" where
  "mathMin NaN b = NaN"
| "mathMin a NaN = NaN"
| "mathMin a b = (if jsLess b a then b else a)"

text \<open>
  Number to string, as a template literal does it. A finite integer below \<open>10\<^sup>2\<^sup>1\<close>
  in magnitude prints its decimal digits.
\<close>

fun numberToString :: "(real \<Rightarrow> jsstring) \<Rightarrow> jsnumber \<Rightarrow> jsstring" where
  "numberToString fmt NaN = lit ''NaN''"
| "numberToString fmt PosInfinity = lit ''Infinity''"
| "numberToString fmt NegInfinity = lit ''-Infinity''"
| "numberToString fmt (Finite x) =
     (if x = of_int \<lfloor>x\<rfloor> \<and> \<bar>x\<bar> < 10 ^ 21 then intToString \<lfloor>x\<rfloor> else fmt x)"

section \<open>AnimationManager\<close>

text \<open>
  The part of the document the AnimationManager works on. Elements are identified by
  numbers. \<open>observed\<close> is the set of targets the IntersectionObserver observes (empty
  when there is no observer); \<open>parentChildren el\<close> is \<open>Array.from(el.parentNode.children)\<close>,
  \<open>None\<close> when \<open>el\<close> has no parent; \<open>scrollProgressBar\<close> is \<open>None\<close> when no element
  matches \<open>.scroll-progress-bar\<close> and otherwise holds the string last assigned to its
  \<open>style.width\<close>; \<open>parallaxItems\<close> holds \<open>style.transform\<close> of the images that
  \<open>querySelectorAll\<close> returns, in document order.
\<close>

record dom =
  observed :: "nat set"
  parentChildren :: "nat \<Rightarrow> nat list option"
  animationDelay :: "nat \<rightharpoonup> jsstring"
  classList :: "nat \<Rightarrow> jsstring set"
  transform :: "nat \<rightharpoonup> jsstring"
  scrollProgressBar :: "jsstring option"
  parallaxItems :: "jsstring list"

record entry =
  target :: nat
  isIntersecting :: bool

datatype error = TypeError

subsection \<open>setupScrollAnimations\<close>

text \<open>\<open>Array.prototype.indexOf\<close>: the first index of the element, or -1.\<close>

fun indexOf :: "nat list \<Rightarrow> nat \<Rightarrow> int" where
  "indexOf [] x = - 1"
| "indexOf (y # ys) x =
     (if y = x then 0 else (let r = indexOf ys x in if r < 0 then - 1 else r + 1))"

text \<open>The string \<open>${index * 0.1}s\<close>; the literal \<open>0.1\<close> is the rounding of one tenth.\<close>

definition staggerDelay :: "(real \<Rightarrow> jsnumber) \<Rightarrow> (real \<Rightarrow> jsstring) \<Rightarrow> int \<Rightarrow> jsstring" where
  "staggerDelay fl fmt index =
     numberToString fmt (jsMultiply fl (Finite (of_int index)) (fl (1 / 10))) @ lit ''s''"

text \<open>
  The observer's callback runs \<open>entries.forEach\<close>. Reading \<open>children\<close> of a missing
  parent throws a TypeError, which ends the loop; what earlier entries changed stays.
\<close>

fun intersectionCallback ::
  "(real \<Rightarrow> jsnumber) \<Rightarrow> (real \<Rightarrow> jsstring) \<Rightarrow> entry list \<Rightarrow> dom \<Rightarrow> dom \<times> error option" where
  "intersectionCallback fl fmt [] d = (d, None)"
| "intersectionCallback fl fmt (e # es) d =
     (if isIntersecting e then
        (case parentChildren d (target e) of
           None \<Rightarrow> (d, Some TypeError)
         | Some children \<Rightarrow>
             intersectionCallback fl fmt es
               (d\<lparr>animationDelay := (animationDelay d)
                      (target e \<mapsto> staggerDelay fl fmt (indexOf children (target e))),
                  classList := (classList d)
                      (target e := insert (lit ''animate-in'') (classList d (target e))),
                  observed := observed d - {target e}\<rparr>))
      else intersectionCallback fl fmt es d)"

text \<open>
  \<open>hasObserver\<close> is \<open>'IntersectionObserver' in window\<close>; \<open>items\<close> are the elements
  matching \<open>.bento-item\<close>.
\<close>

definition setupScrollAnimations :: "bool \<Rightarrow> nat list \<Rightarrow> dom \<Rightarrow> dom" where
  "setupScrollAnimations hasObserver items d =
     (if hasObserver then fold (\<lambda>item d'. d'\<lparr>observed := insert item (observed d')\<rparr>) items d
      else d)"

subsection \<open>setupHoverEffects\<close>

definition handleHoverEnter :: "nat \<Rightarrow> dom \<Rightarrow> dom" where
  "handleHoverEnter item d =
     d\<lparr>transform := (transform d)(item \<mapsto> lit ''translateY(-8px) scale(1.02)'')\<rparr>"

definition handleHoverLeave :: "nat \<Rightarrow> dom \<Rightarrow> dom" where
  "handleHoverLeave item d = d\<lparr>transform := (transform d)(item \<mapsto> [])\<rparr>"

subsection \<open>setupParallaxEffects\<close>

text \<open>
  What the scroll listener reads: \<open>window.pageYOffset\<close>, a finite Number, and the
  integers \<open>document.body.scrollHeight\<close> and \<open>window.innerHeight\<close>.
\<close>

record viewport =
  pageYOffset :: real
  scrollHeight :: int
  innerHeight :: int

definition maxScroll :: "viewport \<Rightarrow> jsnumber" where
  "maxScroll v = Finite (of_int (scrollHeight v - innerHeight v))"

definition scrollProgress :: "(real \<Rightarrow> jsnumber) \<Rightarrow> viewport \<Rightarrow> jsnumber" where
  "scrollProgress fl v =
     jsMultiply fl (jsDivide fl (Finite (pageYOffset v)) (maxScroll v)) (Finite 100)"

definition clampedProgress :: "(real \<Rightarrow> jsnumber) \<Rightarrow> viewport \<Rightarrow> jsnumber" where
  "clampedProgress fl v = mathMin (scrollProgress fl v) (Finite 100)"

definition progressWidth :: "(real \<Rightarrow> jsnumber) \<Rightarrow> (real \<Rightarrow> jsstring) \<Rightarrow> viewport \<Rightarrow> jsstring" where
  "progressWidth fl fmt v = numberToString fmt (clampedProgress fl v) @ lit ''%''"

definition parallaxTransform :: "(real \<Rightarrow> jsnumber) \<Rightarrow> (real \<Rightarrow> jsstring) \<Rightarrow> viewport \<Rightarrow> jsstring" where
  "parallaxTransform fl fmt v =
     (let rate = jsMultiply fl (Finite (pageYOffset v)) (jsNegate (fl (2 / 10)))
      in lit ''translate3d(0, '' @ numberToString fmt rate @ lit ''px, 0)'')"

definition onScroll :: "(real \<Rightarrow> jsnumber) \<Rightarrow> (real \<Rightarrow> jsstring) \<Rightarrow> viewport \<Rightarrow> dom \<Rightarrow> dom" where
  "onScroll fl fmt v d =
     (let d1 = (case scrollProgressBar d of
                  None \<Rightarrow> d
                | Some w \<Rightarrow> d\<lparr>scrollProgressBar := Some (progressWidth fl fmt v)\<rparr>)
      in d1\<lparr>parallaxItems := map (\<lambda>item. parallaxTransform fl fmt v) (parallaxItems d1)\<rparr>)"

subsection \<open>The events that follow the setup\<close>

text \<open>
  The browser calls the observer's callback with the entries it has queued, and it queues
  entries for observed targets only. \<open>deliveries\<close> relates a document to what it becomes
  after any number of such calls, with pointer and scroll events between them.
\<close>

inductive deliveries ::
  "(real \<Rightarrow> jsnumber) \<Rightarrow> (real \<Rightarrow> jsstring) \<Rightarrow> dom \<Rightarrow> dom \<Rightarrow> bool"
  for fl :: "real \<Rightarrow> jsnumber" and fmt :: "real \<Rightarrow> jsstring" where
  none: "deliveries fl fmt d d"
| more: "deliveries fl fmt d d1 \<Longrightarrow> list_all (\<lambda>e. target e \<in> observed d1) es \<Longrightarrow>
         intersectionCallback fl fmt es d1 = (d2, err) \<Longrightarrow> deliveries fl fmt d d2"
| entered: "deliveries fl fmt d d1 \<Longrightarrow> deliveries fl fmt d (handleHoverEnter item d1)"
| left: "deliveries fl fmt d d1 \<Longrightarrow> deliveries fl fmt d (handleHoverLeave item d1)"
| scrolled: "deliveries fl fmt d d1 \<Longrightarrow> deliveries fl fmt d (onScroll fl fmt v d1)"

subsection \<open>Sample documents\<close>

text \<open>Three sibling cards 1, 2 and 3, all observed, and a progress bar.\<close>

definition cards :: dom where
  "cards =
     \<lparr>observed = {1, 2, 3},
      parentChildren = (\<lambda>el. if el \<in> {1, 2, 3} then Some [1, 2, 3] else None),
      animationDelay = Map.empty, classList = (\<lambda>el. {lit ''bento-item''}),
      transform = Map.empty, scrollProgressBar = Some [], parallaxItems = []\<rparr>"

text \<open>
  Exact arithmetic, and a formatter that prints a positive value with one digit after the
  point (as JavaScript prints 0.1 and 0.2).
\<close>

definition exact :: "real \<Rightarrow> jsnumber" where
  "exact x = Finite x"

definition oneDecimal :: "real \<Rightarrow> jsstring" where
  "oneDecimal x = intToString \<lfloor>x\<rfloor> @ lit ''.'' @ natToString (nat (\<lfloor>10 * x\<rfloor> mod 10))"

text \<open>The second card has come into view.\<close>

definition secondCardSeen :: dom where
  "secondCardSeen =
     fst (intersectionCallback exact oneDecimal [\<lparr>target = 2, isIntersecting = True\<rparr>] cards)"

text \<open>Then the first card comes into view, and the third is reported as out of view.\<close>

definition firstCardSeen :: dom where
  "firstCardSeen =
     fst (intersectionCallback exact oneDecimal
            [\<lparr>target = 1, isIntersecting = True\<rparr>, \<lparr>target = 3, isIntersecting = False\<rparr>]
            secondCardSeen)"

section \<open>Predicates of the statements\<close>

text \<open>The current theme is one of the two themes, and the storage holds it.\<close>

definition themeInvariant :: "'a theme_manager_scheme \<Rightarrow> bool" where
  "themeInvariant s =
     ((currentTheme s = light \<or> currentTheme s = dark)
      \<and> localStorage s themeKey = Some (currentTheme s))"

text \<open>
  What \<open>setRgbVariable\<close> leaves in a style variable that held \<open>old\<close>, for a colour
  whose computed value is \<open>hex\<close>.
\<close>

definition written :: "jsstring \<Rightarrow> jsstring option \<Rightarrow> jsstring option" where
  "written hex old =
     (case hexToRgb hex of None \<Rightarrow> old | Some rgb \<Rightarrow> if rgb \<noteq> [] then Some rgb else old)"

section \<open>Properties of the ThemeManager\<close>

subsection \<open>What the operations keep\<close>

lemma light_dark_distinct: "light \<noteq> dark" "light \<noteq> []" "dark \<noteq> []"
  by (simp_all add: light_def dark_def lit_def)

lemma setRgbVariable_keeps:
  "currentTheme (setRgbVariable entry s) = currentTheme s"
  "localStorage (setRgbVariable entry s) = localStorage s"
  by (simp_all add: setRgbVariable_def split: prod.split option.split)

lemma fold_setRgbVariable_keeps:
  "currentTheme (fold setRgbVariable cs s) = currentTheme s \<and>
   localStorage (fold setRgbVariable cs s) = localStorage s"
  by (induction cs arbitrary: s) (simp_all add: setRgbVariable_keeps)

lemma updateRgbVariables_keeps:
  "currentTheme (updateRgbVariables s) = currentTheme s"
  "localStorage (updateRgbVariables s) = localStorage s"
  by (simp_all add: updateRgbVariables_def Let_def fold_setRgbVariable_keeps)

lemma toggleIcons_keeps:
  "currentTheme (toggleIcons isDark s) = currentTheme s"
  "localStorage (toggleIcons isDark s) = localStorage s"
  by (simp_all add: toggleIcons_def split: option.split)

lemma applyTheme_currentTheme: "currentTheme (applyTheme theme s) = theme"
  by (simp add: applyTheme_def Let_def addTransitionClass_def updateRgbVariables_keeps)

lemma applyTheme_localStorage:
  "localStorage (applyTheme theme s) = (localStorage s)(themeKey \<mapsto> theme)"
  by (simp add: applyTheme_def Let_def addTransitionClass_def updateRgbVariables_keeps
      toggleIcons_keeps)

lemma constructor_fields:
  "currentTheme (constructor p) = getInitialTheme p"
  "localStorage (constructor p) = (localStorage p)(themeKey \<mapsto> getInitialTheme p)"
  by (simp_all add: constructor_def init_def updateRgbVariables_keeps applyTheme_currentTheme
      applyTheme_localStorage)

lemma getInitialTheme_valid: "getInitialTheme p = light \<or> getInitialTheme p = dark"
  by (auto simp: getInitialTheme_def Let_def)

subsection \<open>The invariant\<close>

lemma applyTheme_invariant:
  "theme = light \<or> theme = dark \<Longrightarrow> themeInvariant (applyTheme theme s)"
  by (simp add: themeInvariant_def applyTheme_currentTheme applyTheme_localStorage)

lemma constructor_invariant: "themeInvariant (constructor p)"
  using getInitialTheme_valid [of p] by (simp add: themeInvariant_def constructor_fields)

lemma toggleTheme_invariant: "themeInvariant (toggleTheme s)"
  by (simp add: toggleTheme_def Let_def applyTheme_invariant)

lemma setTheme_invariant: "themeInvariant s \<Longrightarrow> themeInvariant (setTheme theme s)"
  by (auto simp: setTheme_def applyTheme_invariant)

lemma handleSystemThemeChange_invariant:
  "themeInvariant s \<Longrightarrow> themeInvariant (handleSystemThemeChange e_matches s)"
  by (simp add: handleSystemThemeChange_def applyTheme_invariant)

lemma transitionTimeout_invariant:
  "themeInvariant s \<Longrightarrow> themeInvariant (transitionTimeout s)"
  by (simp add: themeInvariant_def transitionTimeout_def)

lemma reachable_invariant: "reachable s \<Longrightarrow> themeInvariant s"
  by (induction rule: reachable.induct)
     (simp_all add: constructor_invariant toggleTheme_invariant setTheme_invariant
        handleSystemThemeChange_invariant transitionTimeout_invariant)

text \<open>
  A consequence: the storage holds a theme from the constructor on, so the listener for
  the system preference changes nothing in any state the ThemeManager reaches.
\<close>

lemma reachable_ignores_system: "reachable s \<Longrightarrow> handleSystemThemeChange e_matches s = s"
  using light_dark_distinct
  by (auto dest!: reachable_invariant simp: themeInvariant_def handleSystemThemeChange_def)

text \<open>The stored empty string is falsy: the listener handles it as it handles no value.\<close>

lemma handleSystemThemeChange_empty:
  "localStorage s themeKey = Some [] \<Longrightarrow>
   handleSystemThemeChange e_matches s = applyTheme (if e_matches then dark else light) s"
  by (simp add: handleSystemThemeChange_def)

text \<open>
  The listener stores the theme it applies, so of two changes of the system preference
  the second changes nothing.
\<close>

lemma handleSystemThemeChange_once:
  "handleSystemThemeChange e2 (handleSystemThemeChange e1 s) = handleSystemThemeChange e1 s"
  using light_dark_distinct
  by (simp add: handleSystemThemeChange_def applyTheme_localStorage)

lemma toggleTheme_twice:
  assumes "themeInvariant s"
  shows "currentTheme (toggleTheme (toggleTheme s)) = currentTheme s \<and>
         localStorage (toggleTheme (toggleTheme s)) = localStorage s"
proof -
  from assms have c: "currentTheme s = light \<or> currentTheme s = dark"
    and st: "localStorage s themeKey = Some (currentTheme s)"
    by (simp_all add: themeInvariant_def)
  have "(localStorage s)(themeKey \<mapsto> currentTheme s) = localStorage s"
    using st by (rule map_upd_triv)
  with c show ?thesis
    using light_dark_distinct
    by (auto simp: toggleTheme_def Let_def applyTheme_currentTheme applyTheme_localStorage)
qed

subsection \<open>Hexadecimal digits\<close>

lemma hex_not_ws: "isHexDigit c \<Longrightarrow> \<not> isWhiteSpace c"
  by (auto simp: isHexDigit_def isWhiteSpace_def Let_def)

lemma hex_not_special:
  "isHexDigit c \<Longrightarrow> c \<noteq> of_char CHR ''-'' \<and> c \<noteq> of_char CHR ''+'' \<and> c \<noteq> of_char CHR ''#''
     \<and> c \<noteq> of_char CHR ''x'' \<and> c \<noteq> of_char CHR ''X''"
  by (auto simp: isHexDigit_def)

lemma parseInt16_hex2:
  "isHexDigit a \<Longrightarrow> isHexDigit b \<Longrightarrow> parseInt16 [a, b] = Some (hexValue [a, b])"
  using hex_not_special [of a] hex_not_special [of b]
  by (simp add: parseInt16_def hex_not_ws lit_def hexValue_def)

lemma remove1_stripHash:
  assumes "list_all isHexDigit (stripHash s)"
  shows "remove1 (of_char CHR ''#'') s = stripHash s"
proof (cases s)
  case Nil
  then show ?thesis by (simp add: stripHash_def)
next
  case (Cons c r)
  show ?thesis
  proof (cases "c = of_char CHR ''#''")
    case True
    with Cons show ?thesis by (simp add: stripHash_def)
  next
    case False
    with Cons assms have "list_all isHexDigit s" by (simp add: stripHash_def)
    then have "of_char CHR ''#'' \<notin> set s"
      using hex_not_special by (auto simp: list_all_iff)
    then have "remove1 (of_char CHR ''#'') s = s" by (rule remove1_idem)
    with Cons False show ?thesis by (simp add: stripHash_def)
  qed
qed

lemma length3E: "length d = 3 \<Longrightarrow> \<exists>a b c. d = [a, b, c]"
  by (auto simp: eval_nat_numeral length_Suc_conv)

lemma length6E: "length d = 6 \<Longrightarrow> \<exists>a b c x y z. d = [a, b, c, x, y, z]"
  by (auto simp: eval_nat_numeral length_Suc_conv)

lemma hexToRgb_digits:
  assumes len: "length d = 3 \<or> length d = 6"
    and hex: "list_all isHexDigit d"
    and rem: "remove1 (of_char CHR ''#'') s = d"
  shows "hexToRgb s = Some (rgbTriplet (rgbComponents (expandShort d)))"
  using len
proof
  assume "length d = 3"
  then obtain a b c where d: "d = [a, b, c]" using length3E by blast
  with hex have "isHexDigit a" "isHexDigit b" "isHexDigit c" by simp_all
  then show ?thesis using rem d
    by (simp add: hexToRgb_def substr_def parseInt16_hex2 expandShort_def rgbComponents_def
        rgbTriplet_def)
next
  assume "length d = 6"
  then obtain a b c x y z where d: "d = [a, b, c, x, y, z]" using length6E by blast
  with hex have "isHexDigit a" "isHexDigit b" "isHexDigit c"
    "isHexDigit x" "isHexDigit y" "isHexDigit z" by simp_all
  then show ?thesis using rem d
    by (simp add: hexToRgb_def substr_def parseInt16_hex2 expandShort_def rgbComponents_def
        rgbTriplet_def)
qed

lemma hexToRgb_hexColor:
  assumes "isHexColor s"
  shows "hexToRgb s = Some (rgbTriplet (rgbComponents (expandShort (stripHash s))))"
proof -
  from assms have len: "length (stripHash s) = 3 \<or> length (stripHash s) = 6"
    and hex: "list_all isHexDigit (stripHash s)"
    by (simp_all add: isHexColor_def Let_def)
  from hex have "remove1 (of_char CHR ''#'') s = stripHash s" by (rule remove1_stripHash)
  with len hex show ?thesis by (rule hexToRgb_digits)
qed

text \<open>A string of another length, once its first \<open>#\<close> is removed, is refused.\<close>

lemma hexToRgb_wrong_length:
  "length (remove1 (of_char CHR ''#'') s) \<noteq> 3 \<Longrightarrow> length (remove1 (of_char CHR ''#'') s) \<noteq> 6 \<Longrightarrow>
   hexToRgb s = None"
  by (simp add: hexToRgb_def)

subsection \<open>The style variables\<close>

lemma rgbKey_eq: "rgbKey n = rgbKey m \<longleftrightarrow> n = m"
  by (simp add: rgbKey_def)

lemma inlineStyle_setRgbVariable_other:
  "fst entry \<noteq> n \<Longrightarrow> inlineStyle (setRgbVariable entry s) (rgbKey n) = inlineStyle s (rgbKey n)"
  by (cases entry) (auto simp: setRgbVariable_def rgbKey_eq split: option.split)

lemma inlineStyle_fold_other:
  "\<forall>entry \<in> set cs. fst entry \<noteq> n \<Longrightarrow>
   inlineStyle (fold setRgbVariable cs s) (rgbKey n) = inlineStyle s (rgbKey n)"
  by (induction cs arbitrary: s) (simp_all add: inlineStyle_setRgbVariable_other)

lemma inlineStyle_setRgbVariable_same:
  "inlineStyle (setRgbVariable (n, h) s) (rgbKey n) = written h (inlineStyle s (rgbKey n))"
  by (simp add: setRgbVariable_def written_def split: option.split)

lemma inlineStyle_fold_at:
  "distinct (map fst cs) \<Longrightarrow> (n, h) \<in> set cs \<Longrightarrow>
   inlineStyle (fold setRgbVariable cs s) (rgbKey n) = written h (inlineStyle s (rgbKey n))"
proof (induction cs arbitrary: s)
  case Nil
  then show ?case by simp
next
  case (Cons entry cs)
  show ?case
  proof (cases "entry = (n, h)")
    case True
    with Cons.prems have "\<forall>e \<in> set cs. fst e \<noteq> n" by force
    then show ?thesis using True
      by (simp add: inlineStyle_fold_other inlineStyle_setRgbVariable_same)
  next
    case False
    with Cons.prems have mem: "(n, h) \<in> set cs" and dist: "distinct (map fst cs)" by simp_all
    from Cons.prems mem have "fst entry \<noteq> n" by (cases entry) force
    then show ?thesis using Cons.IH [OF dist mem]
      by (simp add: inlineStyle_setRgbVariable_other)
  qed
qed

lemma distinct_colorNames: "distinct colorNames"
  by (simp add: colorNames_def lit_def)

lemma inlineStyle_updateRgbVariables:
  assumes "n \<in> set colorNames"
  shows "inlineStyle (updateRgbVariables s) (rgbKey n) =
    written (trim (computedStyle s (htmlClassList s) (inlineStyle s) (lit ''--color-'' @ n)))
      (inlineStyle s (rgbKey n))"
proof -
  let ?f = "\<lambda>name. (name, trim (computedStyle s (htmlClassList s) (inlineStyle s)
                          (lit ''--color-'' @ name)))"
  have "distinct (map fst (map ?f colorNames))"
    using distinct_colorNames by (simp add: comp_def)
  moreover have "?f n \<in> set (map ?f colorNames)" using assms by simp
  ultimately show ?thesis
    by (simp only: updateRgbVariables_def Let_def inlineStyle_fold_at)
qed

subsection \<open>Evaluation on the sample inputs\<close>

lemmas hexToRgb_eval =
  hexToRgb_def lit_def substr_def parseInt16_def isWhiteSpace_def isHexDigit_def hexValue_def
  digitValue_def intToString_def natToString.simps

lemma hexToRgb_abc: "hexToRgb (lit ''#abc'') = Some (lit ''170, 187, 204'')"
  by (simp add: hexToRgb_eval)

lemma hexToRgb_336699: "hexToRgb (lit ''336699'') = Some (lit ''51, 102, 153'')"
  by (simp add: hexToRgb_eval)

lemma hexToRgb_12: "hexToRgb (lit ''#12'') = None"
  by (simp add: hexToRgb_eval)

lemma hexToRgb_red: "hexToRgb (lit ''red'') = Some (lit ''NaN, 238, 221'')"
  by (simp add: hexToRgb_eval)

lemma trim_samples: "trim (lit ''red'') = lit ''red''" "trim (lit ''#12'') = lit ''#12''"
  by (simp_all add: trim_def lit_def isWhiteSpace_def)

lemma primary_colorName: "lit ''primary'' \<in> set colorNames"
  by (simp add: colorNames_def)

section \<open>Properties of the AnimationManager\<close>

lemma mathMin_not_above: "\<not> jsLess b (mathMin a b)"
  by (cases a; cases b) auto

lemma indexOf_nonneg: "x \<in> set cs \<Longrightarrow> 0 \<le> indexOf cs x"
  by (induction cs) (auto simp: Let_def)

lemma indexOf_position: "distinct cs \<Longrightarrow> i < length cs \<Longrightarrow> indexOf cs (cs ! i) = int i"
proof (induction cs arbitrary: i)
  case Nil
  then show ?case by simp
next
  case (Cons c cs)
  show ?case
  proof (cases i)
    case 0
    then show ?thesis by simp
  next
    case (Suc j)
    with Cons.prems have j: "j < length cs" and d: "distinct cs" and "cs ! j \<noteq> c"
      by auto
    then show ?thesis using Cons.IH [OF d j] Suc by (simp add: Let_def)
  qed
qed

lemma callback_frame:
  "intersectionCallback fl fmt es d = (d', err) \<Longrightarrow>
   parentChildren d' = parentChildren d \<and> observed d' \<subseteq> observed d
   \<and> (\<forall>t. classList d t \<subseteq> classList d' t)
   \<and> (\<forall>t. animationDelay d' t = animationDelay d t
         \<or> (\<exists>cs. parentChildren d t = Some cs
               \<and> animationDelay d' t = Some (staggerDelay fl fmt (indexOf cs t))))"
proof (induction es arbitrary: d)
  case Nil
  then show ?case by simp
next
  case (Cons e es)
  show ?case
  proof (cases "isIntersecting e")
    case False
    with Cons show ?thesis by simp
  next
    case True
    show ?thesis
    proof (cases "parentChildren d (target e)")
      case None
      with True Cons.prems show ?thesis by simp
    next
      case (Some cs)
      define d1 where "d1 = d\<lparr>animationDelay := (animationDelay d)
                      (target e \<mapsto> staggerDelay fl fmt (indexOf cs (target e))),
                  classList := (classList d)
                      (target e := insert (lit ''animate-in'') (classList d (target e))),
                  observed := observed d - {target e}\<rparr>"
      from True Some Cons.prems have "intersectionCallback fl fmt es d1 = (d', err)"
        by (simp add: d1_def)
      from Cons.IH [OF this] have
        pc: "parentChildren d' = parentChildren d1" and
        ob: "observed d' \<subseteq> observed d1" and
        cl: "\<And>t. classList d1 t \<subseteq> classList d' t" and
        ad: "\<And>t. animationDelay d' t = animationDelay d1 t
             \<or> (\<exists>cs. parentChildren d1 t = Some cs
               \<and> animationDelay d' t = Some (staggerDelay fl fmt (indexOf cs t)))"
        by blast+
      have pc1: "parentChildren d1 = parentChildren d" by (simp add: d1_def)
      have ob1: "observed d1 \<subseteq> observed d" by (auto simp: d1_def)
      have cl1: "\<And>t. classList d t \<subseteq> classList d1 t" by (auto simp: d1_def)
      have ad1: "\<And>t. animationDelay d1 t = animationDelay d t
             \<or> (\<exists>cs. parentChildren d t = Some cs
               \<and> animationDelay d1 t = Some (staggerDelay fl fmt (indexOf cs t)))"
        using Some by (simp add: d1_def)
      have "parentChildren d' = parentChildren d" using pc pc1 by simp
      moreover have "observed d' \<subseteq> observed d" using ob ob1 by (rule subset_trans)
      moreover have "\<forall>t. classList d t \<subseteq> classList d' t"
        using cl cl1 by (blast intro: subset_trans)
      moreover have "\<forall>t. animationDelay d' t = animationDelay d t
         \<or> (\<exists>cs. parentChildren d t = Some cs
               \<and> animationDelay d' t = Some (staggerDelay fl fmt (indexOf cs t)))"
      proof
        fix t
        from ad [of t] ad1 [of t] pc1
        show "animationDelay d' t = animationDelay d t
         \<or> (\<exists>cs. parentChildren d t = Some cs
               \<and> animationDelay d' t = Some (staggerDelay fl fmt (indexOf cs t)))"
          by auto
      qed
      ultimately show ?thesis by simp
    qed
  qed
qed

lemma callback_untouched:
  "\<forall>e \<in> set es. target e \<noteq> t \<Longrightarrow> intersectionCallback fl fmt es d = (d', err) \<Longrightarrow>
   animationDelay d' t = animationDelay d t \<and> classList d' t = classList d t
   \<and> (t \<in> observed d' \<longleftrightarrow> t \<in> observed d)"
proof (induction es arbitrary: d)
  case Nil
  then show ?case by simp
next
  case (Cons e es)
  then have ne: "target e \<noteq> t" and rest: "\<forall>e \<in> set es. target e \<noteq> t" by simp_all
  show ?case
  proof (cases "isIntersecting e")
    case False
    with Cons.prems Cons.IH [OF rest] show ?thesis by simp
  next
    case True
    show ?thesis
    proof (cases "parentChildren d (target e)")
      case None
      with True Cons.prems show ?thesis by simp
    next
      case (Some cs)
      with True Cons.prems Cons.IH [OF rest] ne show ?thesis by simp
    qed
  qed
qed

lemma callback_processed:
  "intersectionCallback fl fmt es d = (d', None) \<Longrightarrow> e \<in> set es \<Longrightarrow> isIntersecting e \<Longrightarrow>
   parentChildren d (target e) = Some cs \<Longrightarrow>
   animationDelay d' (target e) = Some (staggerDelay fl fmt (indexOf cs (target e)))
   \<and> lit ''animate-in'' \<in> classList d' (target e) \<and> target e \<notin> observed d'"
proof (induction es arbitrary: d)
  case Nil
  then show ?case by simp
next
  case (Cons x xs)
  show ?case
  proof (cases "isIntersecting x")
    case False
    with Cons.prems have "e \<in> set xs" "intersectionCallback fl fmt xs d = (d', None)" by auto
    with Cons.IH Cons.prems show ?thesis by blast
  next
    case True
    show ?thesis
    proof (cases "parentChildren d (target x)")
      case None
      with True Cons.prems show ?thesis by simp
    next
      case (Some xcs)
      let ?d1 = "d\<lparr>animationDelay := (animationDelay d)
                      (target x \<mapsto> staggerDelay fl fmt (indexOf xcs (target x))),
                  classList := (classList d)
                      (target x := insert (lit ''animate-in'') (classList d (target x))),
                  observed := observed d - {target x}\<rparr>"
      from True Some Cons.prems have run: "intersectionCallback fl fmt xs ?d1 = (d', None)" by simp
      have pc: "parentChildren ?d1 (target e) = Some cs" using Cons.prems by simp
      show ?thesis
      proof (cases "e \<in> set xs")
        case True
        from Cons.IH [OF run True Cons.prems(3) pc] show ?thesis .
      next
        case False
        with Cons.prems have ex: "e = x" by simp
        with Some Cons.prems have cs: "xcs = cs" by simp
        from callback_frame [OF run] have
          sub: "observed d' \<subseteq> observed ?d1" and
          cl: "classList ?d1 (target e) \<subseteq> classList d' (target e)" and
          ad: "animationDelay d' (target e) = animationDelay ?d1 (target e)
             \<or> (\<exists>cs. parentChildren ?d1 (target e) = Some cs
               \<and> animationDelay d' (target e) = Some (staggerDelay fl fmt (indexOf cs (target e))))"
          by blast+
        from sub ex have "target e \<notin> observed d'" by auto
        moreover from cl ex have "lit ''animate-in'' \<in> classList d' (target e)" by auto
        moreover from ad pc ex cs have "animationDelay d' (target e) = Some (staggerDelay fl fmt (indexOf cs (target e)))"
          by auto
        ultimately show ?thesis by simp
      qed
    qed
  qed
qed

lemma callback_no_error:
  "\<forall>e \<in> set es. isIntersecting e \<longrightarrow> parentChildren d (target e) \<noteq> None \<Longrightarrow>
   snd (intersectionCallback fl fmt es d) = None"
proof (induction es arbitrary: d)
  case Nil
  then show ?case by simp
next
  case (Cons e es)
  then show ?case by (auto split: option.split)
qed

lemma deliveries_one_shot:
  "deliveries fl fmt d d' \<Longrightarrow> t \<notin> observed d \<Longrightarrow>
   t \<notin> observed d' \<and> animationDelay d' t = animationDelay d t \<and> classList d' t = classList d t"
proof (induction rule: deliveries.induct)
  case (none d)
  then show ?case by simp
next
  case (more d d1 es d2 err)
  then have t: "t \<notin> observed d1" by simp
  with more.hyps(2) have "\<forall>e \<in> set es. target e \<noteq> t" by (auto simp: list_all_iff)
  from callback_untouched [OF this more.hyps(3)] t more show ?case by simp
next
  case (entered d d1 item)
  then show ?case by (simp add: handleHoverEnter_def)
next
  case (left d d1 item)
  then show ?case by (simp add: handleHoverLeave_def)
next
  case (scrolled d d1 v)
  then show ?case by (simp add: onScroll_def Let_def split: option.split)
qed
section \<open>The claims\<close>



text \<open>
  C2. The claim is that a colour string which is not three or six hexadecimal digits
  after an optional \<open>#\<close> leads to no write of its \<open>-rgb\<close> variable. \<open>hexToRgb\<close>
  checks the length only: the three letters \<open>red\<close> are doubled to six code units, two
  of which parse to NaN, and \<open>updateRgbVariables\<close> writes the result.
\<close>

theorem updateRgbVariables_writes_malformed:
  "\<not> isHexColor (lit ''red'')
   \<and> hexToRgb (lit ''red'') = Some (lit ''NaN, 238, 221'')
   \<and> inlineStyle (managerOf (colorPage (lit ''red'')) light) (rgbKey (lit ''primary'')) = None
   \<and> inlineStyle (updateRgbVariables (managerOf (colorPage (lit ''red'')) light))
        (rgbKey (lit ''primary'')) = Some (lit ''NaN, 238, 221'')"
proof -
  have "\<not> isHexColor (lit ''red'')"
    by (simp add: isHexColor_def stripHash_def lit_def isHexDigit_def)
  moreover have "inlineStyle (managerOf (colorPage (lit ''red'')) light) (rgbKey (lit ''primary'')) = None"
    by (simp add: managerOf_def colorPage_def blankPage_def)
  moreover have "inlineStyle (updateRgbVariables (managerOf (colorPage (lit ''red'')) light))
        (rgbKey (lit ''primary'')) = written (lit ''red'') None"
    by (simp add: inlineStyle_updateRgbVariables primary_colorName managerOf_def colorPage_def
        blankPage_def trim_samples)
  moreover have "written (lit ''red'') None = Some (lit ''NaN, 238, 221'')"
    by (simp add: written_def hexToRgb_red) (simp add: lit_def)
  ultimately show ?thesis by (simp add: hexToRgb_red)
qed

text \<open>
  C3. The initial theme is the stored value when that value is \<open>light\<close> or \<open>dark\<close>.
  For any other stored value, and for none, it is \<open>dark\<close> when the media query matches
  and \<open>light\<close> otherwise. So it is always one of the two themes, and it is the stored
  value exactly when the stored value is one of them.
\<close>

theorem getInitialTheme_resolution:
  "getInitialTheme p =
     (if localStorage p themeKey = Some light then light
      else if localStorage p themeKey = Some dark then dark
      else if mediaQuery p then dark else light)
   \<and> (getInitialTheme p = light \<or> getInitialTheme p = dark)
   \<and> (\<forall>v. localStorage p themeKey = Some v \<longrightarrow>
          (getInitialTheme p = v \<longleftrightarrow> v = light \<or> v = dark))"
  using light_dark_distinct by (auto simp: getInitialTheme_def Let_def)

theorem getInitialTheme_resolution_witness:
  "localStorage (storedPage (lit ''blue'')) themeKey = Some (lit ''blue'')
   \<and> mediaQuery (storedPage (lit ''blue''))
   \<and> getInitialTheme (storedPage (lit ''blue'')) = dark
   \<and> getInitialTheme (storedPage (lit ''blue'')) \<noteq> lit ''blue''
   \<and> localStorage (storedPage light) themeKey = Some light
   \<and> getInitialTheme (storedPage light) = light"
  using getInitialTheme_resolution [of "storedPage (lit ''blue'')"]
    getInitialTheme_resolution [of "storedPage light"]
  by (simp add: storedPage_def blankPage_def) (simp add: light_def dark_def lit_def)

text \<open>
  C4, as the code has it. From a state whose current theme is \<open>light\<close> or \<open>dark\<close>,
  two calls of \<open>toggleTheme\<close> bring the current theme back and leave it as the stored
  value. So when the storage held the current theme before, which is so in every state
  the ThemeManager reaches, the storage is back to what it was as well.
\<close>

theorem toggleTheme_involution:
  "(currentTheme s = light \<or> currentTheme s = dark \<longrightarrow>
      currentTheme (toggleTheme (toggleTheme s)) = currentTheme s
      \<and> localStorage (toggleTheme (toggleTheme s))
          = (localStorage s)(themeKey \<mapsto> currentTheme s))
   \<and> ((currentTheme s = light \<or> currentTheme s = dark)
        \<and> localStorage s themeKey = Some (currentTheme s) \<longrightarrow>
      currentTheme (toggleTheme (toggleTheme s)) = currentTheme s
      \<and> localStorage (toggleTheme (toggleTheme s)) = localStorage s)
   \<and> (reachable s \<longrightarrow>
      currentTheme (toggleTheme (toggleTheme s)) = currentTheme s
      \<and> localStorage (toggleTheme (toggleTheme s)) = localStorage s)"
proof (intro conjI impI)
  assume "currentTheme s = light \<or> currentTheme s = dark"
  then show "currentTheme (toggleTheme (toggleTheme s)) = currentTheme s"
    and "localStorage (toggleTheme (toggleTheme s))
          = (localStorage s)(themeKey \<mapsto> currentTheme s)"
    using light_dark_distinct
    by (auto simp: toggleTheme_def Let_def applyTheme_currentTheme applyTheme_localStorage)
next
  assume "(currentTheme s = light \<or> currentTheme s = dark)
        \<and> localStorage s themeKey = Some (currentTheme s)"
  then have "themeInvariant s" by (simp add: themeInvariant_def)
  then show "currentTheme (toggleTheme (toggleTheme s)) = currentTheme s"
    and "localStorage (toggleTheme (toggleTheme s)) = localStorage s"
    by (simp_all add: toggleTheme_twice)
next
  assume "reachable s"
  then have "themeInvariant s" by (rule reachable_invariant)
  then show "currentTheme (toggleTheme (toggleTheme s)) = currentTheme s"
    and "localStorage (toggleTheme (toggleTheme s)) = localStorage s"
    by (simp_all add: toggleTheme_twice)
qed

theorem toggleTheme_involution_witness:
  "reachable (constructor blankPage)
   \<and> currentTheme (constructor blankPage) = dark
   \<and> localStorage (constructor blankPage) themeKey = Some dark
   \<and> currentTheme (toggleTheme (constructor blankPage)) = light
   \<and> currentTheme (toggleTheme (toggleTheme (constructor blankPage))) = dark
   \<and> localStorage (toggleTheme (toggleTheme (constructor blankPage)))
       = localStorage (constructor blankPage)"
proof -
  have r: "reachable (constructor blankPage)" by (rule reachable.constructed)
  have c: "currentTheme (constructor blankPage) = dark"
    "localStorage (constructor blankPage) themeKey = Some dark"
    by (simp_all add: constructor_fields getInitialTheme_def blankPage_def)
  have t: "currentTheme (toggleTheme (constructor blankPage)) = light"
    using light_dark_distinct by (simp add: toggleTheme_def applyTheme_currentTheme c)
  from r toggleTheme_involution [of "constructor blankPage"]
  have "currentTheme (toggleTheme (toggleTheme (constructor blankPage)))
      = currentTheme (constructor blankPage)
    \<and> localStorage (toggleTheme (toggleTheme (constructor blankPage)))
      = localStorage (constructor blankPage)"
    by blast
  with r c t show ?thesis by simp
qed

text \<open>
  C4, as it is stated, is about every state whose current theme is one of the two. The
  storage is shared by the pages of the site: when it holds \<open>dark\<close> (another tab has
  stored it) and the current theme is \<open>light\<close>, two calls of \<open>toggleTheme\<close> leave
  \<open>light\<close> in the storage.
\<close>

theorem toggleTheme_involution_counterexample:
  "currentTheme (managerOf (storedPage dark) light) = light
   \<and> localStorage (managerOf (storedPage dark) light) themeKey = Some dark
   \<and> localStorage (toggleTheme (toggleTheme (managerOf (storedPage dark) light))) themeKey
       = Some light
   \<and> localStorage (toggleTheme (toggleTheme (managerOf (storedPage dark) light))) themeKey
       \<noteq> localStorage (managerOf (storedPage dark) light) themeKey"
proof -
  have c: "currentTheme (managerOf (storedPage dark) light) = light"
    and st: "localStorage (managerOf (storedPage dark) light) themeKey = Some dark"
    by (simp_all add: managerOf_def storedPage_def blankPage_def)
  have t: "localStorage (toggleTheme (toggleTheme (managerOf (storedPage dark) light))) themeKey
       = Some light"
    using light_dark_distinct
    by (simp add: toggleTheme_def Let_def applyTheme_currentTheme applyTheme_localStorage c)
  from c st t light_dark_distinct show ?thesis by simp
qed

text \<open>
  C5. \<open>setTheme\<close> with an argument that is neither the string \<open>light\<close> nor the string
  \<open>dark\<close> leaves the state as it is, the current theme and the storage with it; with
  one of the two it applies the theme, which becomes the current theme and the stored
  value.
\<close>

theorem setTheme_validates:
  "(theme \<noteq> JSString light \<and> theme \<noteq> JSString dark \<longrightarrow> setTheme theme s = s)
   \<and> (t = light \<or> t = dark \<longrightarrow>
        setTheme (JSString t) s = applyTheme t s
        \<and> currentTheme (setTheme (JSString t) s) = t
        \<and> localStorage (setTheme (JSString t) s) themeKey = Some t)"
  by (auto simp: setTheme_def applyTheme_currentTheme applyTheme_localStorage)

theorem setTheme_validates_witness:
  "JSString (lit ''blue'') \<noteq> JSString light \<and> JSString (lit ''blue'') \<noteq> JSString dark
   \<and> setTheme (JSString (lit ''blue'')) (constructor blankPage) = constructor blankPage
   \<and> setTheme JSNull (constructor blankPage) = constructor blankPage
   \<and> currentTheme (setTheme (JSString light) (constructor blankPage)) = light
   \<and> localStorage (setTheme (JSString light) (constructor blankPage)) themeKey = Some light"
  using setTheme_validates [of "JSString (lit ''blue'')" "constructor blankPage" light]
    setTheme_validates [of JSNull "constructor blankPage" light]
  by (simp add: light_def dark_def lit_def)

text \<open>
  C6. \<open>hexToRgb\<close> maps a string of three or six hexadecimal digits, with or without a
  leading \<open>#\<close>, to the decimal values of its three components, separated by a comma and
  a space. \<open>#abc\<close> gives \<open>170, 187, 204\<close> and \<open>336699\<close> gives \<open>51, 102, 153\<close>.
  \<open>#12\<close> gives nothing, and \<open>updateRgbVariables\<close> then leaves the \<open>-rgb\<close> variable
  of a colour with that value as it was.
\<close>

theorem hexToRgb_correct:
  "(isHexColor hex \<longrightarrow>
      hexToRgb hex = Some (rgbTriplet (rgbComponents (expandShort (stripHash hex)))))
   \<and> hexToRgb (lit ''#abc'') = Some (lit ''170, 187, 204'')
   \<and> hexToRgb (lit ''336699'') = Some (lit ''51, 102, 153'')
   \<and> hexToRgb (lit ''#12'') = None
   \<and> (\<forall>name \<in> set colorNames.
        trim (computedStyle s (htmlClassList s) (inlineStyle s) (lit ''--color-'' @ name))
          = lit ''#12'' \<longrightarrow>
        inlineStyle (updateRgbVariables s) (rgbKey name) = inlineStyle s (rgbKey name))"
  by (simp add: hexToRgb_hexColor hexToRgb_abc hexToRgb_336699 hexToRgb_12
      inlineStyle_updateRgbVariables written_def)

theorem hexToRgb_correct_witness:
  "isHexColor (lit ''#A1b2C3'')
   \<and> hexToRgb (lit ''#A1b2C3'') = Some (lit ''161, 178, 195'')
   \<and> lit ''primary'' \<in> set colorNames
   \<and> trim (computedStyle (managerOf (colorPage (lit ''#12'')) light)
        (htmlClassList (managerOf (colorPage (lit ''#12'')) light))
        (inlineStyle (managerOf (colorPage (lit ''#12'')) light))
        (lit ''--color-'' @ lit ''primary'')) = lit ''#12''
   \<and> inlineStyle (updateRgbVariables (managerOf (colorPage (lit ''#12'')) light))
        (rgbKey (lit ''primary'')) = None"
proof -
  have h: "isHexColor (lit ''#A1b2C3'')"
    by (simp add: isHexColor_def stripHash_def lit_def isHexDigit_def)
  have v: "rgbTriplet (rgbComponents (expandShort (stripHash (lit ''#A1b2C3''))))
      = lit ''161, 178, 195''"
    by (simp add: rgbTriplet_def rgbComponents_def expandShort_def stripHash_def lit_def
        hexValue_def digitValue_def intToString_def natToString.simps)
  have t: "trim (computedStyle (managerOf (colorPage (lit ''#12'')) light)
        (htmlClassList (managerOf (colorPage (lit ''#12'')) light))
        (inlineStyle (managerOf (colorPage (lit ''#12'')) light))
        (lit ''--color-'' @ lit ''primary'')) = lit ''#12''"
    by (simp add: managerOf_def colorPage_def blankPage_def trim_samples)
  have i: "inlineStyle (managerOf (colorPage (lit ''#12'')) light) (rgbKey (lit ''primary'')) = None"
    by (simp add: managerOf_def colorPage_def blankPage_def)
  from hexToRgb_correct [of "lit ''#A1b2C3''" "managerOf (colorPage (lit ''#12'')) light"]
  have "hexToRgb (lit ''#A1b2C3'') = Some (lit ''161, 178, 195'')"
    and "inlineStyle (updateRgbVariables (managerOf (colorPage (lit ''#12'')) light))
        (rgbKey (lit ''primary'')) = None"
    using h v t i primary_colorName by auto
  with h t primary_colorName show ?thesis by simp
qed

text \<open>
  C7, as the code has it. For every scroll event 100 is never less than the clamped
  progress. When the scrollable height of the document differs from the height of the
  viewport, the clamped progress is 0 at offset 0 and 100 at the offset equal to the
  difference of the two heights, for a rounding that returns 0, 1 and 100 as they are
  (binary64 does); in exact arithmetic it is the offset divided by the difference, times
  100, or 100 if that is more.
\<close>

theorem clampedProgress_nonzero_denominator:
  "\<not> jsLess (Finite 100) (clampedProgress fl v)
   \<and> (scrollHeight v \<noteq> innerHeight v \<longrightarrow>
        (fl 0 = Finite 0 \<and> pageYOffset v = 0 \<longrightarrow> clampedProgress fl v = Finite 0)
        \<and> (fl 1 = Finite 1 \<and> fl 100 = Finite 100
             \<and> pageYOffset v = of_int (scrollHeight v - innerHeight v) \<longrightarrow>
               clampedProgress fl v = Finite 100)
        \<and> clampedProgress exact v
            = Finite (min (pageYOffset v / of_int (scrollHeight v - innerHeight v) * 100) 100))"
  by (auto simp: scrollProgress_def maxScroll_def clampedProgress_def mathMin_not_above
      exact_def min_def)

theorem clampedProgress_nonzero_denominator_witness:
  "scrollHeight \<lparr>pageYOffset = 300, scrollHeight = 2000, innerHeight = 800\<rparr>
     \<noteq> innerHeight \<lparr>pageYOffset = 300, scrollHeight = 2000, innerHeight = 800\<rparr>
   \<and> exact 0 = Finite 0 \<and> exact 1 = Finite 1 \<and> exact 100 = Finite 100
   \<and> clampedProgress exact \<lparr>pageYOffset = 300, scrollHeight = 2000, innerHeight = 800\<rparr>
       = Finite 25
   \<and> clampedProgress exact \<lparr>pageYOffset = 0, scrollHeight = 2000, innerHeight = 800\<rparr>
       = Finite 0
   \<and> clampedProgress exact \<lparr>pageYOffset = 1200, scrollHeight = 2000, innerHeight = 800\<rparr>
       = Finite 100
   \<and> clampedProgress exact \<lparr>pageYOffset = 1500, scrollHeight = 2000, innerHeight = 800\<rparr>
       = Finite 100"
  using clampedProgress_nonzero_denominator
      [of exact "\<lparr>pageYOffset = 300, scrollHeight = 2000, innerHeight = 800\<rparr>"]
    clampedProgress_nonzero_denominator
      [of exact "\<lparr>pageYOffset = 0, scrollHeight = 2000, innerHeight = 800\<rparr>"]
    clampedProgress_nonzero_denominator
      [of exact "\<lparr>pageYOffset = 1200, scrollHeight = 2000, innerHeight = 800\<rparr>"]
    clampedProgress_nonzero_denominator
      [of exact "\<lparr>pageYOffset = 1500, scrollHeight = 2000, innerHeight = 800\<rparr>"]
  by (simp add: exact_def)

text \<open>
  C7, as it is stated, promises progress 0 at offset 0 for every scroll event. In a
  document whose scrollable height equals the height of the viewport the progress at
  offset 0 is NaN.
\<close>

theorem clampedProgress_zero_denominator_counterexample:
  "clampedProgress exact \<lparr>pageYOffset = 0, scrollHeight = 800, innerHeight = 800\<rparr> \<noteq> Finite 0"
  by (simp add: scrollProgress_def maxScroll_def clampedProgress_def)

text \<open>
  C8. When the observer's callback returns, every entry of its batch that was
  intersecting has had its target's \<open>animation-delay\<close> set to the string of 0.1 times
  the target's position among the children of its parent, followed by \<open>s\<close>; the target
  has the class \<open>animate-in\<close> and is no longer observed. The callback throws only when
  an intersecting target has no parent. A target that is not observed stays so through
  all later calls of the callback and all pointer and scroll events, and they leave its
  delay and its classes as they are.
\<close>

theorem intersection_one_shot:
  "(intersectionCallback fl fmt es d = (d', None) \<and> e \<in> set es \<and> isIntersecting e
      \<and> parentChildren d (target e) = Some cs \<and> distinct cs \<and> i < length cs
      \<and> cs ! i = target e \<longrightarrow>
        animationDelay d' (target e)
          = Some (numberToString fmt (jsMultiply fl (Finite (real i)) (fl (1 / 10))) @ lit ''s'')
        \<and> lit ''animate-in'' \<in> classList d' (target e)
        \<and> target e \<notin> observed d')
   \<and> ((\<forall>e \<in> set es. isIntersecting e \<longrightarrow> parentChildren d (target e) \<noteq> None) \<longrightarrow>
        snd (intersectionCallback fl fmt es d) = None)
   \<and> (t \<notin> observed d0 \<and> deliveries fl fmt d0 d2 \<longrightarrow>
        t \<notin> observed d2 \<and> animationDelay d2 t = animationDelay d0 t
        \<and> classList d2 t = classList d0 t)"
proof (intro conjI impI)
  assume a: "intersectionCallback fl fmt es d = (d', None) \<and> e \<in> set es \<and> isIntersecting e
      \<and> parentChildren d (target e) = Some cs \<and> distinct cs \<and> i < length cs
      \<and> cs ! i = target e"
  then have "indexOf cs (target e) = int i"
    using indexOf_position [of cs i] by simp
  moreover from a have "animationDelay d' (target e)
      = Some (staggerDelay fl fmt (indexOf cs (target e)))
    \<and> lit ''animate-in'' \<in> classList d' (target e) \<and> target e \<notin> observed d'"
    using callback_processed [of fl fmt es d d' e cs] by simp
  ultimately show "animationDelay d' (target e)
          = Some (numberToString fmt (jsMultiply fl (Finite (real i)) (fl (1 / 10))) @ lit ''s'')"
    and "lit ''animate-in'' \<in> classList d' (target e)"
    and "target e \<notin> observed d'"
    by (simp_all add: staggerDelay_def)
next
  assume "\<forall>e \<in> set es. isIntersecting e \<longrightarrow> parentChildren d (target e) \<noteq> None"
  then show "snd (intersectionCallback fl fmt es d) = None" by (rule callback_no_error)
next
  assume b: "t \<notin> observed d0 \<and> deliveries fl fmt d0 d2"
  then have "t \<notin> observed d2 \<and> animationDelay d2 t = animationDelay d0 t
        \<and> classList d2 t = classList d0 t"
    using deliveries_one_shot [of fl fmt d0 d2 t] by simp
  then show "t \<notin> observed d2" and "animationDelay d2 t = animationDelay d0 t"
    and "classList d2 t = classList d0 t"
    by simp_all
qed

theorem intersection_one_shot_witness:
  "intersectionCallback exact oneDecimal [\<lparr>target = 2, isIntersecting = True\<rparr>] cards
     = (secondCardSeen, None)
   \<and> parentChildren cards 2 = Some [1, 2, 3]
   \<and> animationDelay secondCardSeen 2 = Some (lit ''0.1s'')
   \<and> lit ''animate-in'' \<in> classList secondCardSeen 2
   \<and> 2 \<notin> observed secondCardSeen
   \<and> deliveries exact oneDecimal secondCardSeen firstCardSeen
   \<and> 2 \<notin> observed firstCardSeen
   \<and> animationDelay firstCardSeen 2 = Some (lit ''0.1s'')
   \<and> animationDelay firstCardSeen 1 = Some (lit ''0s'')
   \<and> observed firstCardSeen = {3}"
proof -
  let ?e = "\<lparr>target = 2, isIntersecting = True\<rparr>"
  have run: "intersectionCallback exact oneDecimal [?e] cards = (secondCardSeen, None)"
    by (simp add: secondCardSeen_def cards_def)
  have pc: "parentChildren cards 2 = Some [1, 2, 3]"
    by (simp add: cards_def)
  have obs: "observed secondCardSeen = {1, 3}"
    by (auto simp: secondCardSeen_def cards_def)
  have del: "deliveries exact oneDecimal secondCardSeen firstCardSeen"
  proof (rule deliveries.more [OF deliveries.none])
    show "list_all (\<lambda>e. target e \<in> observed secondCardSeen)
        [\<lparr>target = 1, isIntersecting = True\<rparr>, \<lparr>target = 3, isIntersecting = False\<rparr>]"
      by (simp add: obs)
    show "intersectionCallback exact oneDecimal
        [\<lparr>target = 1, isIntersecting = True\<rparr>, \<lparr>target = 3, isIntersecting = False\<rparr>]
        secondCardSeen
      = (firstCardSeen, snd (intersectionCallback exact oneDecimal
        [\<lparr>target = 1, isIntersecting = True\<rparr>, \<lparr>target = 3, isIntersecting = False\<rparr>]
        secondCardSeen))"
      by (simp add: firstCardSeen_def)
  qed
  have str: "numberToString oneDecimal (jsMultiply exact (Finite (real 1)) (exact (1 / 10)))
      @ lit ''s'' = lit ''0.1s''"
    by (simp add: exact_def oneDecimal_def intToString_def natToString.simps lit_def)
  have first: "animationDelay firstCardSeen 1 = Some (lit ''0s'')"
    by (simp add: firstCardSeen_def secondCardSeen_def cards_def staggerDelay_def exact_def
        intToString_def natToString.simps lit_def)
  have obs2: "observed firstCardSeen = {3}"
    by (auto simp: firstCardSeen_def secondCardSeen_def cards_def)
  from intersection_one_shot [where fl = exact and fmt = oneDecimal and es = "[?e]"
      and d = cards and d' = secondCardSeen and e = ?e and cs = "[1, 2, 3]" and i = 1
      and t = 2 and ?d0.0 = secondCardSeen and ?d2.0 = firstCardSeen]
  have "animationDelay secondCardSeen 2 = Some (lit ''0.1s'')
      \<and> lit ''animate-in'' \<in> classList secondCardSeen 2
      \<and> 2 \<notin> observed secondCardSeen
      \<and> 2 \<notin> observed firstCardSeen
      \<and> animationDelay firstCardSeen 2 = animationDelay secondCardSeen 2"
    using run pc del obs str by simp
  with run pc del first obs2 show ?thesis by simp
qed

text \<open>
  C9. In every state of the ThemeManager (after the constructor, and after any calls of
  \<open>toggleTheme\<close> and \<open>setTheme\<close>, changes of the system preference and timers that
  follow) the current theme is \<open>light\<close> or \<open>dark\<close> and the storage holds that theme
  under the key \<open>theme\<close>. The constructor itself stores the theme, also when nothing
  was stored and the theme comes from the system preference.
\<close>

theorem themeManager_invariant:
  "(reachable s \<longrightarrow>
      (currentTheme s = light \<or> currentTheme s = dark)
      \<and> localStorage s themeKey = Some (currentTheme s))
   \<and> (localStorage p themeKey = None \<longrightarrow>
        localStorage (constructor p) themeKey = Some (if mediaQuery p then dark else light))"
proof (intro conjI impI)
  assume "reachable s"
  then have "themeInvariant s" by (rule reachable_invariant)
  then show "currentTheme s = light \<or> currentTheme s = dark"
    and "localStorage s themeKey = Some (currentTheme s)"
    by (simp_all add: themeInvariant_def)
next
  assume "localStorage p themeKey = None"
  then show "localStorage (constructor p) themeKey = Some (if mediaQuery p then dark else light)"
    by (simp add: constructor_fields getInitialTheme_def)
qed

theorem themeManager_invariant_witness:
  "reachable (handleSystemThemeChange False (toggleTheme (constructor blankPage)))
   \<and> localStorage blankPage themeKey = None
   \<and> localStorage (constructor blankPage) themeKey = Some dark
   \<and> currentTheme (handleSystemThemeChange False (toggleTheme (constructor blankPage)))
       = light
   \<and> localStorage (handleSystemThemeChange False (toggleTheme (constructor blankPage))) themeKey
       = Some light"
proof -
  let ?s = "handleSystemThemeChange False (toggleTheme (constructor blankPage))"
  have r: "reachable ?s"
    by (intro reachable.systemChanged reachable.toggled reachable.constructed)
  have n: "localStorage blankPage themeKey = None" "mediaQuery blankPage"
    by (simp_all add: blankPage_def)
  have c: "currentTheme (constructor blankPage) = dark"
    by (simp add: constructor_fields getInitialTheme_def blankPage_def)
  have t: "currentTheme (toggleTheme (constructor blankPage)) = light"
    "localStorage (toggleTheme (constructor blankPage)) themeKey = Some light"
    using light_dark_distinct
    by (simp_all add: toggleTheme_def applyTheme_currentTheme applyTheme_localStorage c)
  have h: "currentTheme ?s = light"
    using light_dark_distinct by (simp add: handleSystemThemeChange_def t)
  from themeManager_invariant [of ?s blankPage] r n h show ?thesis by simp
qed

text \<open>
  C10. The division of the scroll listener has no guard. When the scrollable height of
  the document equals the height of the viewport and the offset is 0, the progress is
  NaN, \<open>Math.min\<close> with 100 is NaN as well, and the string assigned to the width of the
  progress bar is \<open>NaN%\<close>, which is neither \<open>0%\<close> nor \<open>100%\<close>.
\<close>

theorem scrollProgress_unguarded:
  assumes "scrollHeight v = innerHeight v" and "pageYOffset v = 0"
  shows "scrollProgress fl v = NaN \<and> clampedProgress fl v = NaN
    \<and> progressWidth fl fmt v = lit ''NaN%''
    \<and> (scrollProgressBar d \<noteq> None \<longrightarrow>
         scrollProgressBar (onScroll fl fmt v d) = Some (lit ''NaN%''))
    \<and> lit ''NaN%'' \<noteq> lit ''0%'' \<and> lit ''NaN%'' \<noteq> lit ''100%''"
  using assms
  by (auto simp: scrollProgress_def maxScroll_def clampedProgress_def progressWidth_def
      onScroll_def lit_def Let_def)

theorem scrollProgress_unguarded_witness:
  "scrollHeight \<lparr>pageYOffset = 0, scrollHeight = 800, innerHeight = 800\<rparr>
     = innerHeight \<lparr>pageYOffset = 0, scrollHeight = 800, innerHeight = 800\<rparr>
   \<and> pageYOffset \<lparr>pageYOffset = 0, scrollHeight = 800, innerHeight = 800\<rparr> = 0
   \<and> scrollProgressBar cards = Some []
   \<and> scrollProgressBar
        (onScroll exact oneDecimal \<lparr>pageYOffset = 0, scrollHeight = 800, innerHeight = 800\<rparr> cards)
       = Some (lit ''NaN%'')"
  using scrollProgress_unguarded
      [where v = "\<lparr>pageYOffset = 0, scrollHeight = 800, innerHeight = 800\<rparr>"
         and d = cards and fl = exact and fmt = oneDecimal]
  by (simp add: cards_def)

end
